theory Spec2Isabelle
  imports Main
begin

section \<open>JavaScript values\<close>

text \<open>
  The request pipeline passes untyped JavaScript values around: exception bodies, handler
  results, rejected input values. They are modelled by one datatype. An object is the list
  of its members in enumeration order. Numbers are the integers (status codes, limits and
  millisecond counts are all the code computes with).
\<close>

datatype json =
    JUndefined
  | JNull
  | JBool bool
  | JNum int
  | JStr string
  | JArr "json list"
  | JObj "(string \<times> json) list"

text \<open>Truthiness, as \<open>||\<close>, \<open>!\<close> and \<open>if\<close> read a value.\<close>

fun truthy :: "json \<Rightarrow> bool" where
  "truthy JUndefined = False"
| "truthy JNull = False"
| "truthy (JBool b) = b"
| "truthy (JNum n) = (n \<noteq> 0)"
| "truthy (JStr s) = (s \<noteq> [])"
| "truthy (JArr xs) = True"
| "truthy (JObj kvs) = True"

definition js_or :: "json \<Rightarrow> json \<Rightarrow> json" where
  "js_or a b = (if truthy a then a else b)"

text \<open>\<open>a || b\<close> on an optional string \<open>a\<close>: undefined and the empty string give \<open>b\<close>.\<close>

definition str_or :: "string option \<Rightarrow> string \<Rightarrow> string" where
  "str_or a b = (case a of None \<Rightarrow> b | Some s \<Rightarrow> if s = [] then b else s)"

text \<open>\<open>typeof v === 'object' && v !== null\<close>.\<close>

fun is_object :: "json \<Rightarrow> bool" where
  "is_object (JArr xs) = True"
| "is_object (JObj kvs) = True"
| "is_object v = False"

text \<open>Member access \<open>v.k\<close> on a value that is not null or undefined.\<close>

fun get_prop :: "json \<Rightarrow> string \<Rightarrow> json" where
  "get_prop (JObj kvs) k = (case map_of kvs k of None \<Rightarrow> JUndefined | Some v \<Rightarrow> v)"
| "get_prop v k = JUndefined"

text \<open>
  \<open>JSON.stringify\<close> leaves out the members of an object whose value is undefined; this is
  what of an object built by a literal reaches the client or the log.
\<close>

definition serialised :: "(string \<times> json) list \<Rightarrow> (string \<times> json) list" where
  "serialised kvs = filter (\<lambda>kv. snd kv \<noteq> JUndefined) kvs"

section \<open>Requests, responses and failures\<close>

datatype route = Route (route_path: string)

text \<open>
  The members of the Express request the pipeline reads. \<open>remoteAddress\<close> is
  \<open>request.connection.remoteAddress\<close>, \<open>http_method\<close> is \<open>request.method\<close>, \<open>user_agent\<close> is
  \<open>headers['user-agent']\<close>.
\<close>

record request =
  ip :: "string option"
  remoteAddress :: "string option"
  route :: "route option"
  url :: string
  http_method :: string
  body :: json
  query :: "(string \<times> json) list"
  params :: "(string \<times> json) list"
  user_agent :: "string option"

text \<open>
  What can be thrown, as the filter's \<open>instanceof\<close> chain tells it apart: an
  \<open>HttpException\<close> (status, response body, message, class name, stack), TypeORM's
  \<open>QueryFailedError\<close>, any other \<open>Error\<close>, and a thrown value that is no \<open>Error\<close> at all.
\<close>

datatype exception =
    HttpException int json string string "string option"
  | QueryFailedError string "string option"
  | Error string string "string option"
  | Thrown json

fun exception_stack :: "exception \<Rightarrow> string option" where
  "exception_stack (HttpException st resp msg nm stk) = stk"
| "exception_stack (QueryFailedError msg stk) = stk"
| "exception_stack (Error nm msg stk) = stk"
| "exception_stack (Thrown v) = None"

fun with_stack :: "string option \<Rightarrow> exception \<Rightarrow> exception" where
  "with_stack s (HttpException st resp msg nm stk) = HttpException st resp msg nm s"
| "with_stack s (QueryFailedError msg stk) = QueryFailedError msg s"
| "with_stack s (Error nm msg stk) = Error nm msg s"
| "with_stack s (Thrown v) = Thrown v"

text \<open>
  The constructors of the framework's exception classes, as far as the pipeline reads
  their result: \<open>message\<close> is the response when that is a string, its \<open>message\<close> member
  when that is a string, and the spaced class name otherwise; \<open>name\<close> is the class name;
  \<open>BadRequestException\<close> wraps a string argument into a body with \<open>error: 'Bad Request'\<close>
  and status 400. \<open>trace\<close> is the stack the runtime attaches to the new error.
\<close>

definition initMessage :: "json \<Rightarrow> string \<Rightarrow> string" where
  "initMessage response fallback =
     (case response of
        JStr s \<Rightarrow> s
      | JObj kvs \<Rightarrow> (case get_prop response ''message'' of JStr m \<Rightarrow> m | _ \<Rightarrow> fallback)
      | _ \<Rightarrow> fallback)"

definition new_HttpException :: "json \<Rightarrow> int \<Rightarrow> string option \<Rightarrow> exception" where
  "new_HttpException response status trace =
     HttpException status response (initMessage response ''Http Exception'') ''HttpException'' trace"

definition createBody :: "json \<Rightarrow> string \<Rightarrow> int \<Rightarrow> json" where
  "createBody arg0 arg1 statusCode =
     (case arg0 of
        JUndefined \<Rightarrow> JObj [(''message'', JStr arg1), (''statusCode'', JNum statusCode)]
      | JNull \<Rightarrow> JObj [(''message'', JStr arg1), (''statusCode'', JNum statusCode)]
      | JStr s \<Rightarrow> JObj [(''message'', arg0), (''error'', JStr arg1), (''statusCode'', JNum statusCode)]
      | JNum n \<Rightarrow> JObj [(''message'', arg0), (''error'', JStr arg1), (''statusCode'', JNum statusCode)]
      | JArr xs \<Rightarrow> JObj [(''message'', arg0), (''error'', JStr arg1), (''statusCode'', JNum statusCode)]
      | _ \<Rightarrow> arg0)"

definition new_BadRequestException :: "json \<Rightarrow> string option \<Rightarrow> exception" where
  "new_BadRequestException objectOrError trace =
     (let response = createBody objectOrError ''Bad Request'' 400
      in HttpException 400 response (initMessage response ''Bad Request Exception'')
           ''BadRequestException'' trace)"

section \<open>GlobalExceptionFilter\<close>

text \<open>
  \<open>catch\<close> of \<open>global-exception.filter.ts\<close>. \<open>NODE_ENV\<close> is \<open>process.env.NODE_ENV\<close>,
  \<open>timestamp\<close> is \<open>new Date().toISOString()\<close>. The result is what
  \<open>response.status(status).json(errorResponse)\<close> is called with: the status and the
  members of \<open>errorResponse\<close> in the order of the object literal. The calls of the logger
  are not part of the result.
\<close>

definition classify :: "exception \<Rightarrow> int \<times> json \<times> json" where
  "classify exception =
     (case exception of
        HttpException status errorResponse msg nm stk \<Rightarrow>
          (if is_object errorResponse
           then (status, js_or (get_prop errorResponse ''message'') (JStr msg),
                         js_or (get_prop errorResponse ''error'') (JStr nm))
           else (status, errorResponse, JStr nm))
      | QueryFailedError msg stk \<Rightarrow>
          (400, JStr ''Database query failed'', JStr ''QueryFailedError'')
      | Error nm msg stk \<Rightarrow>
          (500, js_or (JStr msg) (JStr ''Internal server error''),
                js_or (JStr nm) (JStr ''InternalServerError''))
      | Thrown v \<Rightarrow>
          (500, JStr ''Internal server error'', JStr ''UnknownError''))"

definition stack_member :: "exception \<Rightarrow> json" where
  "stack_member exception =
     (case exception_stack exception of None \<Rightarrow> JUndefined | Some s \<Rightarrow> JStr s)"

definition "catch" :: "string option \<Rightarrow> string \<Rightarrow> request \<Rightarrow> exception \<Rightarrow> int \<times> (string \<times> json) list" where
  "catch NODE_ENV timestamp request exception =
     (case classify exception of (status, message, error) \<Rightarrow>
        (status,
         [(''statusCode'', JNum status),
          (''timestamp'', JStr timestamp),
          (''path'', JStr (url request)),
          (''method'', JStr (http_method request)),
          (''error'', error),
          (''message'', message)]
         @ (if NODE_ENV = Some ''development'' then [(''stack'', stack_member exception)] else [])))"

section \<open>ThrottlerGuard\<close>

text \<open>
  The three methods \<open>throttler.guard.ts\<close> overrides. \<open>throwThrottlingException\<close> only
  ever throws: its value here is the exception it throws. \<open>timestamp\<close> is
  \<open>new Date().toISOString()\<close>.
\<close>

definition getTracker :: "request \<Rightarrow> string" where
  "getTracker request = str_or (ip request) (str_or (remoteAddress request) ''unknown'')"

definition generateKey :: "request \<Rightarrow> string \<Rightarrow> string \<Rightarrow> string" where
  "generateKey request tracker name =
     (let r = str_or (map_option route_path (route request)) (url request)
      in name @ '':'' @ tracker @ '':'' @ r)"

definition throwThrottlingException :: "string \<Rightarrow> string option \<Rightarrow> request \<Rightarrow> exception" where
  "throwThrottlingException timestamp trace request =
     new_HttpException
       (JObj [(''statusCode'', JNum 429),
              (''message'', JStr ''Too Many Requests''),
              (''error'', JStr ''ThrottlerException''),
              (''timestamp'', JStr timestamp),
              (''path'', JStr (url request)),
              (''method'', JStr (http_method request)),
              (''details'', JStr ''Rate limit exceeded. Please try again later.'')])
       429 trace"

section \<open>Tiers and per-endpoint settings\<close>

record rate =
  ttl :: int
  limit :: int

record tier = rate +
  name :: string

text \<open>
  Limits and windows are JavaScript numbers, that is doubles, with integer values
  (\<open>configuration.ts\<close> reads them with \<open>parseInt\<close>). The product of two of them is the
  exact product rounded to the nearest double, ties to even: the product itself while its
  magnitude is below \<open>2^53\<close>, and above that the nearest multiple of the unit in the last
  place, \<open>ulp\<close>. Products beyond the largest finite double are not modelled.
\<close>

function ulp :: "int \<Rightarrow> int" where
  "ulp m = (if m < 9007199254740992 then 1 else 2 * ulp (m div 2))"
  by pat_completeness auto
termination
  by (relation "measure nat") auto

declare ulp.simps [simp del]

definition to_double :: "int \<Rightarrow> int" where
  "to_double n =
     (if \<bar>n\<bar> < 9007199254740992 then n
      else (let m = \<bar>n\<bar>;
                u = ulp m;
                q = m div u;
                r = m mod u;
                q' = (if 2 * r > u \<or> (2 * r = u \<and> odd q) then q + 1 else q)
            in sgn n * (q' * u)))"

definition js_times :: "int \<Rightarrow> int \<Rightarrow> int" where
  "js_times a b = to_double (a * b)"

text \<open>
  The factory of \<open>ThrottlerModule.forRootAsync\<close> in \<open>app.module.ts\<close>. Its two arguments are
  what \<open>configService.get('throttle.ttl')\<close> and \<open>configService.get('throttle.limit')\<close>
  return, \<open>None\<close> for undefined; \<open>configuration.ts\<close> fills them from \<open>THROTTLE_TTL\<close>
  (default 60000) and \<open>THROTTLE_LIMIT\<close> (default 100).
\<close>

definition nullish :: "int option \<Rightarrow> int \<Rightarrow> int" where
  "nullish v d = (case v of None \<Rightarrow> d | Some x \<Rightarrow> x)"

definition throttlers :: "int option \<Rightarrow> int option \<Rightarrow> tier list" where
  "throttlers ttl_cfg limit_cfg =
     [\<lparr>ttl = nullish ttl_cfg 60000, limit = nullish limit_cfg 100, name = ''short''\<rparr>,
      \<lparr>ttl = js_times (nullish ttl_cfg 60000) 10,
       limit = js_times (nullish limit_cfg 100) 10, name = ''medium''\<rparr>,
      \<lparr>ttl = js_times (nullish ttl_cfg 60000) 60,
       limit = js_times (nullish limit_cfg 100) 60, name = ''long''\<rparr>]"

text \<open>
  \<open>ThrottleEndpoint\<close> of \<open>throttle.decorator.ts\<close>: each decorator attaches to the route the
  argument of \<open>Throttle\<close>, an object whose keys are tier names. The second argument of
  \<open>Custom\<close> is optional and defaults to 60000.
\<close>

definition ThrottleEndpoint_Strict :: "(string \<times> rate) list" where
  "ThrottleEndpoint_Strict = [(''short'', \<lparr>ttl = 60000, limit = 10\<rparr>)]"

definition ThrottleEndpoint_Moderate :: "(string \<times> rate) list" where
  "ThrottleEndpoint_Moderate = [(''short'', \<lparr>ttl = 60000, limit = 30\<rparr>)]"

definition ThrottleEndpoint_Lenient :: "(string \<times> rate) list" where
  "ThrottleEndpoint_Lenient = [(''short'', \<lparr>ttl = 60000, limit = 100\<rparr>)]"

definition ThrottleEndpoint_Custom :: "int \<Rightarrow> int option \<Rightarrow> (string \<times> rate) list" where
  "ThrottleEndpoint_Custom lim t = [(''default'', \<lparr>ttl = nullish t 60000, limit = lim\<rparr>)]"

section \<open>The rate limiter's check\<close>

record RateLimitRecord =
  count :: int
  windowStart :: int

type_synonym store = "string \<rightharpoonup> RateLimitRecord"

text \<open>
  Modelled from the spec: the counter store and the tier loop of the guard
  (\<open>canActivate\<close> is inherited from the framework's guard class, which
  \<open>throttler.guard.ts\<close> extends, and the storage service is the framework's; neither is
  among the repository's sources). Section 4.2: look the record of the bucket up or
  create it; when \<open>now - windowStart > ttl\<close> reset it; increment; reject when the count
  after the increment exceeds the limit; tiers are evaluated in their given order and the
  first one that rejects stops the evaluation. The bucket key and the exception are the
  overridden methods above. The tiers are those that apply to the route.
\<close>

definition increment :: "store \<Rightarrow> string \<Rightarrow> int \<Rightarrow> int \<Rightarrow> store \<times> int" where
  "increment store key window now =
     (let r = (case store key of
                 None \<Rightarrow> \<lparr>count = 0, windowStart = now\<rparr>
               | Some r \<Rightarrow> if now - windowStart r > window
                          then \<lparr>count = 0, windowStart = now\<rparr> else r);
          r' = r\<lparr>count := count r + 1\<rparr>
      in (store(key \<mapsto> r'), count r'))"

fun check :: "string \<Rightarrow> string option \<Rightarrow> request \<Rightarrow> int \<Rightarrow> tier list \<Rightarrow> store
    \<Rightarrow> store \<times> (exception + bool)" where
  "check timestamp trace request now [] store = (store, Inr True)"
| "check timestamp trace request now (t # ts) store =
     (let key = generateKey request (getTracker request) (name t)
      in case increment store key (ttl t) now of
           (store', hits) \<Rightarrow>
             if hits > limit t
             then (store', Inl (throwThrottlingException timestamp trace request))
             else check timestamp trace request now ts store')"

section \<open>ParseDatePipe\<close>

text \<open>
  \<open>transform\<close> of \<open>parse-date.pipe.ts\<close>. \<open>options\<close> is the constructor's optional argument
  with its optional member \<open>optional\<close>; \<open>val\<close> is the raw value, \<open>None\<close> when it is
  missing; \<open>data\<close> is \<open>metadata.data\<close>, the name of the parameter. \<open>Date\<close> stands for
  \<open>new Date(value).getTime()\<close>, \<open>None\<close> when that is \<open>NaN\<close>. The result \<open>Inr None\<close> is
  the returned \<open>undefined\<close>. \<open>ParseOptionalDatePipe\<close> passes \<open>{ optional: true }\<close> to the
  constructor it inherits.
\<close>

definition ParseDatePipe_transform ::
    "bool option option \<Rightarrow> (string \<Rightarrow> int option) \<Rightarrow> string option \<Rightarrow> string option
      \<Rightarrow> string option \<Rightarrow> exception + int option" where
  "ParseDatePipe_transform options Date trace val data =
     (let missing =
        (if options = Some (Some True) then Inr None
         else Inl (new_BadRequestException
                (JStr (''Validation failed for '' @ str_or data ''parameter''
                       @ ''. Expected a valid date string.'')) trace))
      in case val of
           None \<Rightarrow> missing
         | Some v \<Rightarrow>
             if v = [] then missing
             else (case Date v of
                     None \<Rightarrow> Inl (new_BadRequestException
                        (JStr (''Validation failed for '' @ str_or data ''parameter''
                               @ ''. '' @ [CHR 0x22] @ v @ [CHR 0x22]
                               @ '' is not a valid date.'')) trace)
                   | Some date \<Rightarrow> Inr (Some date)))"

definition ParseOptionalDatePipe_transform ::
    "(string \<Rightarrow> int option) \<Rightarrow> string option \<Rightarrow> string option \<Rightarrow> string option
      \<Rightarrow> exception + int option" where
  "ParseOptionalDatePipe_transform = ParseDatePipe_transform (Some (Some True))"

section \<open>ValidationPipe\<close>

text \<open>
  A \<open>ValidationError\<close> of class-validator: the property, the rejected value, the optional
  object of violated constraints (constraint name to message, in enumeration order) and
  the optional list of errors of nested objects.
\<close>

datatype ValidationError =
  ValidationError string json "(string \<times> string) list option" "ValidationError list option"

text \<open>
  \<open>customFlattenValidationErrors\<close> and the \<open>exceptionFactory\<close> of \<open>validation.pipe.ts\<close>.
  The closure \<open>extractErrors\<close> pushes onto one array; here it returns what it pushes, in
  the same order.
\<close>

fun extractErrors :: "ValidationError \<Rightarrow> string \<Rightarrow> json list" where
  "extractErrors (ValidationError property v constraints children) parentPath =
     (let currentPath = (if parentPath \<noteq> [] then parentPath @ ''.'' @ property else property)
      in (case constraints of
            None \<Rightarrow> []
          | Some cs \<Rightarrow>
              map (\<lambda>constraint. JObj [(''field'', JStr currentPath),
                                       (''message'', JStr constraint),
                                       (''value'', v)]) (map snd cs))
         @ (case children of
              None \<Rightarrow> []
            | Some chs \<Rightarrow>
                if length chs > 0
                then concat (map (\<lambda>child. extractErrors child currentPath) chs)
                else []))"

definition customFlattenValidationErrors :: "ValidationError list \<Rightarrow> json list" where
  "customFlattenValidationErrors validationErrors =
     concat (map (\<lambda>error. extractErrors error []) validationErrors)"

definition exceptionFactory :: "string option \<Rightarrow> ValidationError list \<Rightarrow> exception" where
  "exceptionFactory trace validationErrors =
     (let errors = customFlattenValidationErrors validationErrors
      in new_BadRequestException
           (JObj [(''message'', JStr ''Validation failed''), (''errors'', JArr errors)]) trace)"

subsection \<open>The violations of an input, as the specification words them\<close>

text \<open>
  The specification's side of the comparison: the violated constraints of an error tree,
  walked depth-first, each with the list of property names from the root to its node,
  its message and the rejected value; the dotted path of a list of names; and the entry
  of a violation. \<open>named\<close> holds of a tree in which no property name is empty.
\<close>

fun spec_dotted :: "string list \<Rightarrow> string" where
  "spec_dotted [] = []"
| "spec_dotted [p] = p"
| "spec_dotted (p # q # ps) = p @ ''.'' @ spec_dotted (q # ps)"

fun spec_violations :: "string list \<Rightarrow> ValidationError \<Rightarrow> (string list \<times> string \<times> json) list" where
  "spec_violations prefix (ValidationError property v constraints children) =
     map (\<lambda>c. (prefix @ [property], snd c, v)) (case constraints of None \<Rightarrow> [] | Some cs \<Rightarrow> cs)
     @ concat (map (spec_violations (prefix @ [property]))
         (case children of None \<Rightarrow> [] | Some chs \<Rightarrow> chs))"

fun named :: "ValidationError \<Rightarrow> bool" where
  "named (ValidationError property v constraints children) =
     (property \<noteq> [] \<and> (case children of None \<Rightarrow> True | Some chs \<Rightarrow> list_all named chs))"

definition spec_entry :: "string list \<times> string \<times> json \<Rightarrow> json" where
  "spec_entry x = (case x of (ps, m, v) \<Rightarrow>
     JObj [(''field'', JStr (spec_dotted ps)), (''message'', JStr m), (''value'', v)])"

section \<open>LoggingInterceptor\<close>

text \<open>
  The three calls of the logger in \<open>logging.interceptor.ts\<close>, each with the object it
  serialises as its payload (the headline is left out): the record of the request, the
  record of the response, the record of the failure.
\<close>

datatype log_record =
    RequestLog "(string \<times> json) list"
  | ResponseLog "(string \<times> json) list"
  | ErrorLog "(string \<times> json) list"

fun is_start :: "log_record \<Rightarrow> bool" where
  "is_start (RequestLog payload) = True"
| "is_start r = False"

fun is_end :: "log_record \<Rightarrow> bool" where
  "is_end (RequestLog payload) = False"
| "is_end r = True"

text \<open>
  \<open>error.message\<close> in the \<open>error\<close> callback: the message of an error object, the member of
  any other thrown value, and \<open>None\<close> where reading a member raises, that is for a thrown
  \<open>null\<close> or \<open>undefined\<close>.
\<close>

fun error_message :: "exception \<Rightarrow> json option" where
  "error_message (HttpException st resp msg nm stk) = Some (JStr msg)"
| "error_message (QueryFailedError msg stk) = Some (JStr msg)"
| "error_message (Error nm msg stk) = Some (JStr msg)"
| "error_message (Thrown JNull) = None"
| "error_message (Thrown JUndefined) = None"
| "error_message (Thrown v) = Some (get_prop v ''message'')"

text \<open>
  \<open>intercept\<close>. \<open>next\<close> is the outcome of \<open>next.handle()\<close>: the one value the rest of the
  pipeline emits, or the failure it raises. \<open>started\<close> and \<open>finished\<close> are the readings of
  \<open>Date.now()\<close> before \<open>next.handle()\<close> and in the callback, \<open>toISOString\<close> formats a
  reading as \<open>new Date().toISOString()\<close> does,
  \<open>statusCode\<close> is \<open>response.statusCode\<close> when the callback runs. \<open>stringify\<close> is
  \<open>JSON.stringify\<close>, which returns \<open>undefined\<close> (\<open>None\<close>) for a value that has no JSON
  text, such as \<open>undefined\<close>; \<open>typeError\<close> is what the engine raises when a member of
  \<open>undefined\<close> or \<open>null\<close> is read. A callback of \<open>tap\<close> that raises makes the stream
  fail with what it raised. The result is the list of records logged, in order, and the
  outcome handed on. \<open>request_record\<close> is the record the first call of the logger
  writes, before \<open>next.handle()\<close>.
\<close>

definition request_record :: "(int \<Rightarrow> string) \<Rightarrow> request \<Rightarrow> int \<Rightarrow> log_record" where
  "request_record toISOString request started =
     (let userAgent = str_or (user_agent request) [];
          ip = str_or (ip request) (str_or (remoteAddress request) [])
      in RequestLog
           [(''timestamp'', JStr (toISOString started)),
            (''method'', JStr (http_method request)),
            (''url'', JStr (url request)),
            (''ip'', JStr ip),
            (''userAgent'', JStr userAgent),
            (''body'', if http_method request \<noteq> ''GET'' then body request else JUndefined),
            (''query'', if length (query request) \<noteq> 0 then JObj (query request) else JUndefined),
            (''params'', if length (params request) \<noteq> 0 then JObj (params request) else JUndefined)])"

definition intercept :: "(json \<Rightarrow> string option) \<Rightarrow> (int \<Rightarrow> string) \<Rightarrow> exception \<Rightarrow> request \<Rightarrow> int
    \<Rightarrow> int \<Rightarrow> int \<Rightarrow> exception + json \<Rightarrow> log_record list \<times> (exception + json)" where
  "intercept stringify toISOString typeError request statusCode started finished next =
     (let requestLog = request_record toISOString request started
      in case next of
           Inr data \<Rightarrow>
             (case stringify data of
                None \<Rightarrow> ([requestLog], Inl typeError)
              | Some text \<Rightarrow>
                  ([requestLog,
                    ResponseLog
                      [(''timestamp'', JStr (toISOString finished)),
                       (''method'', JStr (http_method request)),
                       (''url'', JStr (url request)),
                       (''statusCode'', JNum statusCode),
                       (''responseTime'', JNum (finished - started)),
                       (''dataSize'', JNum (int (length text)))]],
                   Inr data))
         | Inl error \<Rightarrow>
             (case error_message error of
                None \<Rightarrow> ([requestLog], Inl typeError)
              | Some message \<Rightarrow>
                  ([requestLog,
                    ErrorLog
                      [(''timestamp'', JStr (toISOString finished)),
                       (''method'', JStr (http_method request)),
                       (''url'', JStr (url request)),
                       (''statusCode'', JNum (if statusCode \<noteq> 0 then statusCode else 500)),
                       (''responseTime'', JNum (finished - started)),
                       (''error'', message)]],
                   Inl error)))"

section \<open>Properties of the filter\<close>

lemma classify_Thrown: "classify (Thrown v) = (500, JStr ''Internal server error'', JStr ''UnknownError'')"
  by (simp add: classify_def)

text \<open>
  Claim C6. A failure of an unrecognised type, that is a thrown value that is none of
  \<open>HttpException\<close>, \<open>QueryFailedError\<close> and \<open>Error\<close>, is answered with status 500, and the
  envelope has \<open>statusCode\<close> 500 and \<open>error\<close> equal to \<open>"UnknownError"\<close>.
\<close>

theorem catch_unrecognised_is_UnknownError:
  "fst (catch NODE_ENV timestamp request (Thrown v)) = 500
   \<and> map_of (snd (catch NODE_ENV timestamp request (Thrown v))) ''statusCode'' = Some (JNum 500)
   \<and> map_of (snd (catch NODE_ENV timestamp request (Thrown v))) ''error'' = Some (JStr ''UnknownError'')"
  by (simp add: catch_def classify_Thrown)

lemma classify_with_stack: "classify (with_stack s e) = classify e"
  by (cases e) (simp_all add: classify_def)

text \<open>
  Claim C7. In every branch the envelope that reaches the client carries \<open>timestamp\<close>,
  \<open>path\<close> and \<open>method\<close>. Its \<open>stack\<close> member is there exactly when \<open>NODE_ENV\<close> is
  \<open>development\<close> and the failure carries a stack, and is then that stack. Outside
  development two failures that differ only in their stacks get the same status and the
  same envelope, and so do any two query failures, whatever their database messages.
\<close>

theorem catch_envelope_context_and_stack:
  "map_of (serialised (snd (catch NODE_ENV timestamp request exception))) ''timestamp''
     = Some (JStr timestamp)
   \<and> map_of (serialised (snd (catch NODE_ENV timestamp request exception))) ''path''
     = Some (JStr (url request))
   \<and> map_of (serialised (snd (catch NODE_ENV timestamp request exception))) ''method''
     = Some (JStr (http_method request))
   \<and> map_of (serialised (snd (catch NODE_ENV timestamp request exception))) ''stack''
     = (if NODE_ENV = Some ''development''
        then map_option JStr (exception_stack exception) else None)
   \<and> (NODE_ENV \<noteq> Some ''development'' \<longrightarrow>
        catch NODE_ENV timestamp request (with_stack s1 exception)
          = catch NODE_ENV timestamp request (with_stack s2 exception))
   \<and> (NODE_ENV \<noteq> Some ''development'' \<longrightarrow>
        catch NODE_ENV timestamp request (QueryFailedError m1 s1)
          = catch NODE_ENV timestamp request (QueryFailedError m2 s2))"
proof -
  have fields: "map_of (serialised (snd (catch NODE_ENV timestamp request exception))) ''timestamp''
       = Some (JStr timestamp)
     \<and> map_of (serialised (snd (catch NODE_ENV timestamp request exception))) ''path''
       = Some (JStr (url request))
     \<and> map_of (serialised (snd (catch NODE_ENV timestamp request exception))) ''method''
       = Some (JStr (http_method request))"
    by (auto simp: catch_def serialised_def split: prod.splits)
  have stack: "map_of (serialised (snd (catch NODE_ENV timestamp request exception))) ''stack''
       = (if NODE_ENV = Some ''development''
          then map_option JStr (exception_stack exception) else None)"
    by (auto simp: catch_def serialised_def stack_member_def split: prod.splits option.splits)
  have traces: "NODE_ENV \<noteq> Some ''development'' \<longrightarrow>
        catch NODE_ENV timestamp request (with_stack s1 exception)
          = catch NODE_ENV timestamp request (with_stack s2 exception)"
    by (simp add: catch_def classify_with_stack)
  have queries: "NODE_ENV \<noteq> Some ''development'' \<longrightarrow>
        catch NODE_ENV timestamp request (QueryFailedError m1 s1)
          = catch NODE_ENV timestamp request (QueryFailedError m2 s2)"
    by (simp add: catch_def classify_def)
  from fields stack traces queries show ?thesis by blast
qed

text \<open>
  Claim C7, at a concrete input: in production a generic error with one stack and the same
  error with another are answered alike, and so are two query failures with different
  database messages.
\<close>

theorem catch_envelope_context_and_stack_witness:
  "catch (Some ''production'') ''2024-01-01T00:00:00.000Z''
      \<lparr>ip = None, remoteAddress = None, route = None, url = ''/users/42'', http_method = ''GET'',
       body = JUndefined, query = [], params = [], user_agent = None\<rparr>
      (Error ''TypeError'' ''boom'' (Some ''at handler (users.js:10)''))
     = catch (Some ''production'') ''2024-01-01T00:00:00.000Z''
      \<lparr>ip = None, remoteAddress = None, route = None, url = ''/users/42'', http_method = ''GET'',
       body = JUndefined, query = [], params = [], user_agent = None\<rparr>
      (Error ''TypeError'' ''boom'' (Some ''at other (users.js:99)''))
   \<and> catch (Some ''production'') ''2024-01-01T00:00:00.000Z''
      \<lparr>ip = None, remoteAddress = None, route = None, url = ''/users/42'', http_method = ''GET'',
       body = JUndefined, query = [], params = [], user_agent = None\<rparr>
      (QueryFailedError ''duplicate key value'' (Some ''at handler (users.js:10)''))
     = catch (Some ''production'') ''2024-01-01T00:00:00.000Z''
      \<lparr>ip = None, remoteAddress = None, route = None, url = ''/users/42'', http_method = ''GET'',
       body = JUndefined, query = [], params = [], user_agent = None\<rparr>
      (QueryFailedError ''relation does not exist'' (Some ''at other (users.js:99)''))"
  using catch_envelope_context_and_stack
    [of "Some ''production''" "''2024-01-01T00:00:00.000Z''"
        "\<lparr>ip = None, remoteAddress = None, route = None, url = ''/users/42'', http_method = ''GET'',
          body = JUndefined, query = [], params = [], user_agent = None\<rparr>"
        "Error ''TypeError'' ''boom'' None"
        "Some ''at handler (users.js:10)''" "Some ''at other (users.js:99)''"
        "''duplicate key value''" "''relation does not exist''"]
  by simp

section \<open>Properties of the guard's overrides\<close>

text \<open>
  Claim C4. For every request that carries the route of its matched handler, and every
  tier name, the bucket key is the tier name, a colon, the client address, a colon and
  the route's pattern. The client address is the peer address, \<open>request.ip\<close> or, when
  that is missing or empty, the remote address of the connection, and \<open>"unknown"\<close> when
  neither is available. The key is built from the pattern and not from the request path:
  it stays the same whatever the URL of the request is.
\<close>

theorem generateKey_bucket_key:
  "route request = Some (Route pattern) \<and> pattern \<noteq> [] \<longrightarrow>
     generateKey request (getTracker request) tierName =
       tierName @ '':'' @
       (case ip request of
          Some a \<Rightarrow> if a \<noteq> [] then a
                    else (case remoteAddress request of
                            Some b \<Rightarrow> if b \<noteq> [] then b else ''unknown''
                          | None \<Rightarrow> ''unknown'')
        | None \<Rightarrow> (case remoteAddress request of
                     Some b \<Rightarrow> if b \<noteq> [] then b else ''unknown''
                   | None \<Rightarrow> ''unknown''))
       @ '':'' @ pattern
     \<and> generateKey (request\<lparr>url := u\<rparr>) (getTracker (request\<lparr>url := u\<rparr>)) tierName
         = generateKey request (getTracker request) tierName"
  by (simp add: generateKey_def getTracker_def str_or_def split: option.splits)

text \<open>
  Claim C4, at a concrete input: a request for \<open>/users/42\<close> matched by the route
  \<open>/users/:id\<close>, from a peer known only through the connection.
\<close>

theorem generateKey_bucket_key_witness:
  "generateKey
     \<lparr>ip = None, remoteAddress = Some ''10.0.0.7'', route = Some (Route ''/users/:id''),
      url = ''/users/42'', http_method = ''GET'', body = JUndefined, query = [], params = [],
      user_agent = None\<rparr>
     (getTracker
       \<lparr>ip = None, remoteAddress = Some ''10.0.0.7'', route = Some (Route ''/users/:id''),
        url = ''/users/42'', http_method = ''GET'', body = JUndefined, query = [], params = [],
        user_agent = None\<rparr>)
     ''medium''
   = ''medium:10.0.0.7:/users/:id''"
  using generateKey_bucket_key
    [of "\<lparr>ip = None, remoteAddress = Some ''10.0.0.7'', route = Some (Route ''/users/:id''),
          url = ''/users/42'', http_method = ''GET'', body = JUndefined, query = [], params = [],
          user_agent = None\<rparr>" "''/users/:id''" "''medium''" "''/users/42''"]
  by simp

section \<open>Properties of the tiers and of the check\<close>

lemma snd_increment_other:
  "k \<noteq> k' \<Longrightarrow>
     snd (increment (fst (increment store k w now)) k' w' now) = snd (increment store k' w' now)"
  by (simp add: increment_def Let_def)

lemma fst_increment_other: "k \<noteq> k' \<Longrightarrow> fst (increment store k w now) k' = store k'"
  by (simp add: increment_def Let_def)

lemma snd_increment_cong:
  "store k = store' k \<Longrightarrow> snd (increment store k w now) = snd (increment store' k w now)"
  by (simp add: increment_def Let_def)

lemma tier_keys_differ:
  "generateKey request tracker ''short'' \<noteq> generateKey request tracker ''medium''"
  "generateKey request tracker ''short'' \<noteq> generateKey request tracker ''long''"
  "generateKey request tracker ''medium'' \<noteq> generateKey request tracker ''long''"
  by (simp_all add: generateKey_def Let_def)

lemma check_three_tiers:
  "(snd (check timestamp trace request now
           [\<lparr>ttl = w1, limit = l1, name = ''short''\<rparr>,
            \<lparr>ttl = w2, limit = l2, name = ''medium''\<rparr>,
            \<lparr>ttl = w3, limit = l3, name = ''long''\<rparr>] store) = Inr True)
   = (snd (increment store (generateKey request (getTracker request) ''short'') w1 now) \<le> l1
    \<and> snd (increment store (generateKey request (getTracker request) ''medium'') w2 now) \<le> l2
    \<and> snd (increment store (generateKey request (getTracker request) ''long'') w3 now) \<le> l3)"
proof -
  let ?ks = "generateKey request (getTracker request) ''short''"
  let ?km = "generateKey request (getTracker request) ''medium''"
  let ?kl = "generateKey request (getTracker request) ''long''"
  let ?s1 = "fst (increment store ?ks w1 now)"
  let ?s2 = "fst (increment ?s1 ?km w2 now)"
  have m: "snd (increment ?s1 ?km w2 now) = snd (increment store ?km w2 now)"
    by (rule snd_increment_other) (rule tier_keys_differ)
  have "?s2 ?kl = store ?kl"
    by (simp add: fst_increment_other tier_keys_differ)
  then have l: "snd (increment ?s2 ?kl w3 now) = snd (increment store ?kl w3 now)"
    by (rule snd_increment_cong)
  show ?thesis
    using m l
    by (simp add: Let_def case_prod_beta not_less)
qed

lemma js_times_exact: "\<bar>a * b\<bar> < 9007199254740992 \<Longrightarrow> js_times a b = a * b"
  by (simp add: js_times_def to_double_def)

text \<open>
  Above \<open>2^53\<close> the products are rounded: for the largest safe integer as the base window
  the medium and long windows are not ten and sixty times it.
\<close>

lemma ulp_of_products:
  "ulp 90071992547409910 = 16" "ulp 540431955284459460 = 64"
  by (simp_all add: ulp.simps)

lemma throttlers_products_round:
  "map ttl (throttlers (Some 9007199254740991) None)
     = [9007199254740991, 90071992547409904, 540431955284459456]"
  by (simp add: throttlers_def nullish_def js_times_def to_double_def Let_def ulp_of_products)

text \<open>
  Claim C3, as it is stated, fails: the windows are not fixed. With \<open>throttle.ttl\<close>
  configured as 30000 they are 30 seconds, 5 minutes and 30 minutes.
\<close>

theorem throttlers_windows_counterexample:
  "map ttl (throttlers (Some 30000) (Some 100)) = [30000, 300000, 1800000]"
  by (simp add: throttlers_def nullish_def js_times_exact)

text \<open>
  Claim C3, amended. There are exactly three tiers, named short, medium and long, in this
  order. Their windows are the configured base window, ten times and sixty times it, as
  long as sixty times the base is below \<open>2^53\<close> in magnitude; with the default base
  window of 60000 ms that is 1 minute, 10 minutes and 1 hour. Their limits are the
  configured base limit, ten times and sixty times it, under the same bound (default
  base 100). A request is admitted exactly when it passes all three tiers: in each of the
  three buckets the count after the increment does not exceed the tier's limit.
\<close>

theorem throttlers_three_scaled_tiers:
  "map name (throttlers ttl_cfg limit_cfg) = [''short'', ''medium'', ''long'']
   \<and> map ttl (throttlers None limit_cfg) = [60000, 600000, 3600000]
   \<and> (\<bar>w * 60\<bar> < 9007199254740992 \<longrightarrow>
        map ttl (throttlers (Some w) limit_cfg) = [w, w * 10, w * 60])
   \<and> map limit (throttlers ttl_cfg None) = [100, 1000, 6000]
   \<and> (\<bar>b * 60\<bar> < 9007199254740992 \<longrightarrow>
        map limit (throttlers ttl_cfg (Some b)) = [b, b * 10, b * 60])
   \<and> (snd (check timestamp trace request now (throttlers ttl_cfg limit_cfg) store) = Inr True)
       = list_all
           (\<lambda>t. snd (increment store (generateKey request (getTracker request) (name t))
                        (ttl t) now) \<le> limit t)
           (throttlers ttl_cfg limit_cfg)"
proof -
  have names: "map name (throttlers ttl_cfg limit_cfg) = [''short'', ''medium'', ''long'']"
    by (simp add: throttlers_def)
  have default_windows: "map ttl (throttlers None limit_cfg) = [60000, 600000, 3600000]"
    by (simp add: throttlers_def nullish_def js_times_exact)
  have windows: "\<bar>w * 60\<bar> < 9007199254740992 \<longrightarrow>
        map ttl (throttlers (Some w) limit_cfg) = [w, w * 10, w * 60]"
    by (simp add: throttlers_def nullish_def js_times_exact)
  have default_limits: "map limit (throttlers ttl_cfg None) = [100, 1000, 6000]"
    by (simp add: throttlers_def nullish_def js_times_exact)
  have limits: "\<bar>b * 60\<bar> < 9007199254740992 \<longrightarrow>
        map limit (throttlers ttl_cfg (Some b)) = [b, b * 10, b * 60]"
    by (simp add: throttlers_def nullish_def js_times_exact)
  have admitted:
    "(snd (check timestamp trace request now (throttlers ttl_cfg limit_cfg) store) = Inr True)
       = list_all
           (\<lambda>t. snd (increment store (generateKey request (getTracker request) (name t))
                        (ttl t) now) \<le> limit t)
           (throttlers ttl_cfg limit_cfg)"
    unfolding throttlers_def check_three_tiers by simp
  from names default_windows windows default_limits limits admitted
  show ?thesis by blast
qed

text \<open>
  Claim C3, at a concrete input: a base window of five minutes and a base limit of 10.
\<close>

theorem throttlers_three_scaled_tiers_witness:
  "map ttl (throttlers (Some 300000) (Some 10)) = [300000, 3000000, 18000000]
   \<and> map limit (throttlers (Some 300000) (Some 10)) = [10, 100, 600]"
  using throttlers_three_scaled_tiers [of "Some 300000" "Some 10" 300000 10]
  by simp

text \<open>
  What the decorators declare: each of the predefined settings names one tier, \<open>short\<close>,
  and \<open>Custom\<close> names \<open>default\<close>, which is not the name of a configured tier.
\<close>

lemma declared_settings_name_one_tier:
  "map fst ThrottleEndpoint_Strict = [''short'']
   \<and> map fst ThrottleEndpoint_Moderate = [''short'']
   \<and> map fst ThrottleEndpoint_Lenient = [''short'']
   \<and> map fst (ThrottleEndpoint_Custom lim t) = [''default'']
   \<and> ''default'' \<notin> set (map name (throttlers ttl_cfg limit_cfg))"
  by (simp add: ThrottleEndpoint_Strict_def ThrottleEndpoint_Moderate_def
      ThrottleEndpoint_Lenient_def ThrottleEndpoint_Custom_def throttlers_def)

text \<open>
  Claim C5. The check either admits the request or, a tier having rejected it, raises
  the failure of \<open>throwThrottlingException\<close> and no other: an \<open>HttpException\<close> with status
  429 and the message \<open>"Too Many Requests"\<close>. The filter answers it with status 429 and an
  envelope whose \<open>statusCode\<close> is 429, whose \<open>message\<close> is \<open>"Too Many Requests"\<close> and whose
  \<open>error\<close> is \<open>"ThrottlerException"\<close>.
\<close>

theorem rejection_is_429_Too_Many_Requests:
  "(snd (check timestamp trace request now tiers store) = Inl e
      \<longrightarrow> e = throwThrottlingException timestamp trace request)
   \<and> (snd (check timestamp trace request now tiers store) = Inr True
        \<or> snd (check timestamp trace request now tiers store)
            = Inl (throwThrottlingException timestamp trace request))
   \<and> (\<exists>response. throwThrottlingException timestamp trace request
          = HttpException 429 response ''Too Many Requests'' ''HttpException'' trace
        \<and> get_prop response ''statusCode'' = JNum 429
        \<and> get_prop response ''message'' = JStr ''Too Many Requests''
        \<and> get_prop response ''error'' = JStr ''ThrottlerException'')
   \<and> fst (catch NODE_ENV timestamp' request' (throwThrottlingException timestamp trace request)) = 429
   \<and> map_of (serialised (snd (catch NODE_ENV timestamp' request'
               (throwThrottlingException timestamp trace request)))) ''statusCode'' = Some (JNum 429)
   \<and> map_of (serialised (snd (catch NODE_ENV timestamp' request'
               (throwThrottlingException timestamp trace request)))) ''message''
       = Some (JStr ''Too Many Requests'')
   \<and> map_of (serialised (snd (catch NODE_ENV timestamp' request'
               (throwThrottlingException timestamp trace request)))) ''error''
       = Some (JStr ''ThrottlerException'')"
proof -
  have raised: "snd (check timestamp trace request now tiers store) = Inl e
      \<longrightarrow> e = throwThrottlingException timestamp trace request"
    by (induction tiers arbitrary: store) (auto simp: Let_def split: prod.splits if_splits)
  have outcome: "snd (check timestamp trace request now tiers store) = Inr True
        \<or> snd (check timestamp trace request now tiers store)
            = Inl (throwThrottlingException timestamp trace request)"
    by (induction tiers arbitrary: store) (auto simp: Let_def split: prod.splits if_splits)
  have failure: "\<exists>response. throwThrottlingException timestamp trace request
          = HttpException 429 response ''Too Many Requests'' ''HttpException'' trace
        \<and> get_prop response ''statusCode'' = JNum 429
        \<and> get_prop response ''message'' = JStr ''Too Many Requests''
        \<and> get_prop response ''error'' = JStr ''ThrottlerException''"
    by (simp add: throwThrottlingException_def new_HttpException_def initMessage_def)
  have envelope: "catch NODE_ENV timestamp' request' (throwThrottlingException timestamp trace request) =
    (429, [(''statusCode'', JNum 429), (''timestamp'', JStr timestamp'),
           (''path'', JStr (url request')), (''method'', JStr (http_method request')),
           (''error'', JStr ''ThrottlerException''), (''message'', JStr ''Too Many Requests'')]
          @ (if NODE_ENV = Some ''development'' then [(''stack'', stack_member
               (throwThrottlingException timestamp trace request))] else []))"
    by (simp add: catch_def classify_def throwThrottlingException_def new_HttpException_def
        js_or_def)
  from raised outcome failure show ?thesis
    unfolding envelope by (simp add: serialised_def)
qed

text \<open>
  Claim C5, at a concrete input: the short bucket of the client already counts 10 in the
  running window, the limit is 10, and the next request is rejected.
\<close>

theorem rejection_is_429_Too_Many_Requests_witness:
  "snd (check ''2024-01-01T00:00:05.000Z'' None
         \<lparr>ip = Some ''10.0.0.7'', remoteAddress = Some ''10.0.0.7'',
        route = Some (Route ''/health/info''), url = ''/health/info'', http_method = ''GET'',
        body = JUndefined, query = [], params = [], user_agent = None\<rparr> 5000
         [\<lparr>ttl = 60000, limit = 10, name = ''short''\<rparr>]
         [''short:10.0.0.7:/health/info'' \<mapsto> \<lparr>count = 10, windowStart = 0\<rparr>])
     = Inl (throwThrottlingException ''2024-01-01T00:00:05.000Z'' None
         \<lparr>ip = Some ''10.0.0.7'', remoteAddress = Some ''10.0.0.7'',
        route = Some (Route ''/health/info''), url = ''/health/info'', http_method = ''GET'',
        body = JUndefined, query = [], params = [], user_agent = None\<rparr>)
   \<and> fst (catch (Some ''production'') ''2024-01-01T00:00:05.001Z''
         \<lparr>ip = Some ''10.0.0.7'', remoteAddress = Some ''10.0.0.7'',
        route = Some (Route ''/health/info''), url = ''/health/info'', http_method = ''GET'',
        body = JUndefined, query = [], params = [], user_agent = None\<rparr>
         (throwThrottlingException ''2024-01-01T00:00:05.000Z'' None
           \<lparr>ip = Some ''10.0.0.7'', remoteAddress = Some ''10.0.0.7'',
        route = Some (Route ''/health/info''), url = ''/health/info'', http_method = ''GET'',
        body = JUndefined, query = [], params = [], user_agent = None\<rparr>)) = 429"
proof -
  have rejected: "\<exists>e. snd (check ''2024-01-01T00:00:05.000Z'' None
         \<lparr>ip = Some ''10.0.0.7'', remoteAddress = Some ''10.0.0.7'',
        route = Some (Route ''/health/info''), url = ''/health/info'', http_method = ''GET'',
        body = JUndefined, query = [], params = [], user_agent = None\<rparr> 5000
         [\<lparr>ttl = 60000, limit = 10, name = ''short''\<rparr>]
         [''short:10.0.0.7:/health/info'' \<mapsto> \<lparr>count = 10, windowStart = 0\<rparr>]) = Inl e"
    by (simp add: increment_def generateKey_def getTracker_def str_or_def Let_def)
  then obtain e where e: "snd (check ''2024-01-01T00:00:05.000Z'' None
         \<lparr>ip = Some ''10.0.0.7'', remoteAddress = Some ''10.0.0.7'',
        route = Some (Route ''/health/info''), url = ''/health/info'', http_method = ''GET'',
        body = JUndefined, query = [], params = [], user_agent = None\<rparr> 5000
         [\<lparr>ttl = 60000, limit = 10, name = ''short''\<rparr>]
         [''short:10.0.0.7:/health/info'' \<mapsto> \<lparr>count = 10, windowStart = 0\<rparr>]) = Inl e"
    by blast
  from rejection_is_429_Too_Many_Requests
    [of "''2024-01-01T00:00:05.000Z''" None
        "\<lparr>ip = Some ''10.0.0.7'', remoteAddress = Some ''10.0.0.7'',
        route = Some (Route ''/health/info''), url = ''/health/info'', http_method = ''GET'',
        body = JUndefined, query = [], params = [], user_agent = None\<rparr>" 5000
        "[\<lparr>ttl = 60000, limit = 10, name = ''short''\<rparr>]"
        "[''short:10.0.0.7:/health/info'' \<mapsto> \<lparr>count = 10, windowStart = 0\<rparr>]" e
        "Some ''production''" "''2024-01-01T00:00:05.001Z''"
        "\<lparr>ip = Some ''10.0.0.7'', remoteAddress = Some ''10.0.0.7'',
        route = Some (Route ''/health/info''), url = ''/health/info'', http_method = ''GET'',
        body = JUndefined, query = [], params = [], user_agent = None\<rparr>"] e
  show ?thesis by simp
qed

section \<open>Properties of the pipes\<close>

text \<open>
  Claim C8. The optional date parse returns the absent value for a missing and for an
  empty input, whatever the parser, the parameter name and the moment of the call: it is
  a function of its input, so every invocation on such an input gives this same result.
  On a non-empty string that does not parse it raises a \<open>BadRequestException\<close>, status
  400, and returns nothing.
\<close>

theorem optional_date_absent_or_rejected:
  "((val = None \<or> val = Some []) \<longrightarrow>
       ParseOptionalDatePipe_transform Date trace val data = Inr None)
   \<and> (v \<noteq> [] \<and> Date v = None \<longrightarrow>
        (\<exists>response message.
           ParseOptionalDatePipe_transform Date trace (Some v) data
             = Inl (HttpException 400 response message ''BadRequestException'' trace)
           \<and> get_prop response ''statusCode'' = JNum 400))"
  by (auto simp: ParseOptionalDatePipe_transform_def ParseDatePipe_transform_def Let_def
      new_BadRequestException_def createBody_def)

text \<open>
  Claim C8, at concrete inputs: the empty string is absent, and \<open>not-a-date\<close> is rejected
  with status 400.
\<close>

theorem optional_date_absent_or_rejected_witness:
  "ParseOptionalDatePipe_transform (\<lambda>s. if s = ''2024-01-01T00:00:00Z'' then Some 1704067200000 else None) None (Some []) (Some ''endDate'') = Inr None
   \<and> (\<exists>response message.
        ParseOptionalDatePipe_transform (\<lambda>s. if s = ''2024-01-01T00:00:00Z'' then Some 1704067200000 else None) None (Some ''not-a-date'') (Some ''endDate'')
          = Inl (HttpException 400 response message ''BadRequestException'' None)
        \<and> get_prop response ''statusCode'' = JNum 400)"
  using optional_date_absent_or_rejected
    [of "Some []" "(\<lambda>s. if s = ''2024-01-01T00:00:00Z'' then Some 1704067200000 else None)" None "Some ''endDate''" "''not-a-date''"]
  by simp

text \<open>
  Claim C10. Without the optional flag a missing or empty value is not passed through: the
  parse raises a \<open>BadRequestException\<close>, status 400, whose message is \<open>Validation failed
  for\<close>, the name of the parameter (\<open>parameter\<close> when it has none), \<open>. Expected a valid
  date string.\<close> A non-empty value that does not parse raises one whose message ends in
  the quoted value and \<open>is not a valid date.\<close>; the two messages differ for every
  parameter name and value. The parse returns the absent value only when the optional
  flag is set and the value is missing or empty.
\<close>

theorem required_date_missing_is_rejected:
  "(options \<noteq> Some (Some True) \<and> (val = None \<or> val = Some []) \<longrightarrow>
      ParseDatePipe_transform options Date trace val data
        = Inl (HttpException 400
            (JObj [(''message'', JStr (''Validation failed for ''
                       @ (case data of None \<Rightarrow> ''parameter''
                          | Some n \<Rightarrow> if n = [] then ''parameter'' else n)
                       @ ''. Expected a valid date string.'')),
                   (''error'', JStr ''Bad Request''),
                   (''statusCode'', JNum 400)])
            (''Validation failed for ''
               @ (case data of None \<Rightarrow> ''parameter'' | Some n \<Rightarrow> if n = [] then ''parameter'' else n)
               @ ''. Expected a valid date string.'')
            ''BadRequestException'' trace))
   \<and> (v \<noteq> [] \<and> Date v = None \<longrightarrow>
      ParseDatePipe_transform options Date trace (Some v) data
        = Inl (HttpException 400
            (JObj [(''message'', JStr (''Validation failed for ''
                       @ (case data of None \<Rightarrow> ''parameter''
                          | Some n \<Rightarrow> if n = [] then ''parameter'' else n)
                       @ ''. '' @ [CHR 0x22] @ v @ [CHR 0x22] @ '' is not a valid date.'')),
                   (''error'', JStr ''Bad Request''),
                   (''statusCode'', JNum 400)])
            (''Validation failed for ''
               @ (case data of None \<Rightarrow> ''parameter'' | Some n \<Rightarrow> if n = [] then ''parameter'' else n)
               @ ''. '' @ [CHR 0x22] @ v @ [CHR 0x22] @ '' is not a valid date.'')
            ''BadRequestException'' trace))
   \<and> ''Validation failed for '' @ p @ ''. Expected a valid date string.''
       \<noteq> ''Validation failed for '' @ p @ ''. '' @ [CHR 0x22] @ w @ [CHR 0x22]
           @ '' is not a valid date.''
   \<and> (ParseDatePipe_transform options Date trace val data = Inr None \<longrightarrow>
        options = Some (Some True) \<and> (val = None \<or> val = Some []))"
  by (auto simp: ParseDatePipe_transform_def Let_def str_or_def
      new_BadRequestException_def createBody_def initMessage_def split: option.splits if_splits)

text \<open>
  Claim C10, at concrete inputs: the pipe built without options rejects the empty
  \<open>startDate\<close> with the message for a missing value, and rejects \<open>not-a-date\<close> with the
  other message; the pipe built with the flag returns the absent value, and its flag is
  set.
\<close>

theorem required_date_missing_is_rejected_witness:
  "ParseDatePipe_transform None (\<lambda>s. if s = ''2024-01-01T00:00:00Z'' then Some 1704067200000 else None) None (Some []) (Some ''startDate'')
     = Inl (HttpException 400
         (JObj [(''message'', JStr ''Validation failed for startDate. Expected a valid date string.''),
                (''error'', JStr ''Bad Request''),
                (''statusCode'', JNum 400)])
         ''Validation failed for startDate. Expected a valid date string.''
         ''BadRequestException'' None)
   \<and> ParseDatePipe_transform None (\<lambda>s. if s = ''2024-01-01T00:00:00Z'' then Some 1704067200000 else None) None (Some ''not-a-date'') (Some ''startDate'')
     = Inl (HttpException 400
         (JObj [(''message'', JStr (''Validation failed for startDate. '' @ [CHR 0x22]
                    @ ''not-a-date'' @ [CHR 0x22] @ '' is not a valid date.'')),
                (''error'', JStr ''Bad Request''),
                (''statusCode'', JNum 400)])
         (''Validation failed for startDate. '' @ [CHR 0x22] @ ''not-a-date'' @ [CHR 0x22]
            @ '' is not a valid date.'')
         ''BadRequestException'' None)
   \<and> ParseDatePipe_transform (Some (Some True)) (\<lambda>s. if s = ''2024-01-01T00:00:00Z'' then Some 1704067200000 else None) None (Some []) (Some ''startDate'') = Inr None"
proof -
  have absent: "ParseDatePipe_transform (Some (Some True)) (\<lambda>s. if s = ''2024-01-01T00:00:00Z'' then Some 1704067200000 else None) None (Some []) (Some ''startDate'')
      = Inr None"
    by (simp add: ParseDatePipe_transform_def)
  from required_date_missing_is_rejected
    [of None "Some []" "(\<lambda>s. if s = ''2024-01-01T00:00:00Z'' then Some 1704067200000 else None)" None "Some ''startDate''" "''not-a-date''"] absent
  show ?thesis by simp
qed

section \<open>Properties of the validation failure\<close>

text \<open>
  The flattening itself: the list has one entry for each violated constraint of the whole
  input, nested objects included, in depth-first order; where no property name is empty,
  each entry has the dotted path from the root to the violating node as its \<open>field\<close>.
\<close>

lemma spec_dotted_snoc: "ps \<noteq> [] \<Longrightarrow> spec_dotted (ps @ [p]) = spec_dotted ps @ ''.'' @ p"
  by (induction ps rule: spec_dotted.induct) simp_all

lemma spec_dotted_nonempty:
  "ps \<noteq> [] \<Longrightarrow> list_all (\<lambda>p. p \<noteq> []) ps \<Longrightarrow> spec_dotted ps \<noteq> []"
  by (induction ps rule: spec_dotted.induct) simp_all

lemma currentPath_dotted:
  "list_all (\<lambda>p. p \<noteq> []) ps \<Longrightarrow>
     (if spec_dotted ps \<noteq> [] then spec_dotted ps @ ''.'' @ p else p) = spec_dotted (ps @ [p])"
  by (cases "ps = []") (simp_all add: spec_dotted_snoc spec_dotted_nonempty)

lemma extractErrors_length:
  "length (extractErrors e parentPath) = length (spec_violations prefix e)"
proof (induction e parentPath arbitrary: prefix rule: extractErrors.induct)
  case (1 property v constraints children parentPath)
  show ?case
  proof (cases children)
    case None
    then show ?thesis by (simp add: Let_def split: option.splits)
  next
    case (Some chs)
    have "length (concat (map (\<lambda>child. extractErrors child
              (if parentPath \<noteq> [] then parentPath @ ''.'' @ property else property)) chs))
        = length (concat (map (spec_violations (prefix @ [property])) chs))"
      using 1 [OF refl Some]
      by (cases "chs = []") (simp_all add: length_concat comp_def cong: map_cong)
    with Some show ?thesis
      by (simp add: Let_def split: option.splits)
  qed
qed

lemma extractErrors_violations:
  "named e \<Longrightarrow> list_all (\<lambda>p. p \<noteq> []) prefix \<Longrightarrow>
     extractErrors e (spec_dotted prefix) = map spec_entry (spec_violations prefix e)"
proof (induction e "spec_dotted prefix" arbitrary: prefix rule: extractErrors.induct)
  case (1 property v constraints children)
  have cur: "(if spec_dotted prefix \<noteq> [] then spec_dotted prefix @ ''.'' @ property else property)
               = spec_dotted (prefix @ [property])"
    using "1.prems"(2) by (rule currentPath_dotted)
  have pre: "list_all (\<lambda>p. p \<noteq> []) (prefix @ [property])"
    using "1.prems" by simp
  show ?case
  proof (cases children)
    case None
    then show ?thesis
      by (simp add: Let_def cur spec_entry_def comp_def split: option.splits)
  next
    case (Some chs)
    have "concat (map (\<lambda>child. extractErrors child (spec_dotted (prefix @ [property]))) chs)
        = concat (map (\<lambda>child. map spec_entry (spec_violations (prefix @ [property]) child)) chs)"
    proof -
      have "extractErrors child (spec_dotted (prefix @ [property]))
              = map spec_entry (spec_violations (prefix @ [property]) child)"
        if c: "child \<in> set chs" for child
      proof -
        from c have len: "0 < length chs" by (cases chs) auto
        from "1.prems"(1) Some c have nm: "named child" by (simp add: list_all_iff)
        show ?thesis by (rule "1.hyps" [OF cur [symmetric] Some len c nm pre])
      qed
      then show ?thesis by (simp cong: map_cong)
    qed
    with Some show ?thesis
      by (simp add: Let_def cur spec_entry_def comp_def map_concat split: option.splits)
  qed
qed

lemma customFlatten_length:
  "length (customFlattenValidationErrors errs) = length (concat (map (spec_violations []) errs))"
  by (simp add: customFlattenValidationErrors_def length_concat comp_def
      extractErrors_length [where prefix = "[]"])

lemma customFlatten_violations:
  assumes "list_all named errs"
  shows "customFlattenValidationErrors errs = map spec_entry (concat (map (spec_violations []) errs))"
proof -
  have "extractErrors e [] = map spec_entry (spec_violations [] e)" if "e \<in> set errs" for e
    using extractErrors_violations [of e "[]"] assms that by (simp add: list_all_iff)
  then show ?thesis
    by (simp add: customFlattenValidationErrors_def map_concat comp_def cong: map_cong)
qed

lemma exceptionFactory_value:
  "exceptionFactory trace errs =
     HttpException 400
       (JObj [(''message'', JStr ''Validation failed''),
              (''errors'', JArr (customFlattenValidationErrors errs))])
       ''Validation failed'' ''BadRequestException'' trace"
  by (simp add: exceptionFactory_def new_BadRequestException_def createBody_def initMessage_def)

lemma catch_exceptionFactory:
  "catch NODE_ENV timestamp request (exceptionFactory trace errs) =
     (400, [(''statusCode'', JNum 400), (''timestamp'', JStr timestamp),
            (''path'', JStr (url request)), (''method'', JStr (http_method request)),
            (''error'', JStr ''BadRequestException''), (''message'', JStr ''Validation failed'')]
           @ (if NODE_ENV = Some ''development''
              then [(''stack'', case trace of None \<Rightarrow> JUndefined | Some s \<Rightarrow> JStr s)] else []))"
  by (simp add: exceptionFactory_value catch_def classify_def js_or_def stack_member_def)


text \<open>
  Claim C2, at a failing input: \<open>POST /api/v1/users\<close> with an \<open>email\<close> that is no
  e-mail address. The failure the repository's \<open>exceptionFactory\<close> builds carries the
  flattened list, one entry for the violated constraint, under \<open>errors\<close>; the envelope the
  filter makes of it has neither \<open>details\<close> nor \<open>errors\<close>. \<open>main.ts\<close> installs the
  framework's pipe and not this factory: the failure is then a \<open>BadRequestException\<close> over
  the list of messages, and its envelope has the messages as \<open>message\<close>, \<open>Bad Request\<close> as
  \<open>error\<close>, and no list of violations either.
\<close>

theorem validation_list_missing_from_envelope:
  "exceptionFactory None
       [ValidationError ''email'' (JStr ''invalid-email'')
            (Some [(''isEmail'', ''email must be an email'')]) None]
     = HttpException 400
         (JObj [(''message'', JStr ''Validation failed''),
                (''errors'', JArr [JObj [(''field'', JStr ''email''),
                                         (''message'', JStr ''email must be an email''),
                                         (''value'', JStr ''invalid-email'')]])])
         ''Validation failed'' ''BadRequestException'' None
   \<and> catch (Some ''production'') ''2024-01-15T10:30:00.000Z''
       \<lparr>ip = Some ''10.0.0.7'', remoteAddress = Some ''10.0.0.7'',
        route = Some (Route ''/api/v1/users''), url = ''/api/v1/users'', http_method = ''POST'',
        body = JObj [(''email'', JStr ''invalid-email'')], query = [], params = [],
        user_agent = None\<rparr>
       (exceptionFactory None
         [ValidationError ''email'' (JStr ''invalid-email'')
            (Some [(''isEmail'', ''email must be an email'')]) None])
     = (400,
        [(''statusCode'', JNum 400), (''timestamp'', JStr ''2024-01-15T10:30:00.000Z''),
         (''path'', JStr ''/api/v1/users''), (''method'', JStr ''POST''),
         (''error'', JStr ''BadRequestException''), (''message'', JStr ''Validation failed'')])
   \<and> catch (Some ''production'') ''2024-01-15T10:30:00.000Z''
       \<lparr>ip = Some ''10.0.0.7'', remoteAddress = Some ''10.0.0.7'',
        route = Some (Route ''/api/v1/users''), url = ''/api/v1/users'', http_method = ''POST'',
        body = JObj [(''email'', JStr ''invalid-email'')], query = [], params = [],
        user_agent = None\<rparr>
       (new_BadRequestException (JArr [JStr ''email must be an email'']) None)
     = (400,
        [(''statusCode'', JNum 400), (''timestamp'', JStr ''2024-01-15T10:30:00.000Z''),
         (''path'', JStr ''/api/v1/users''), (''method'', JStr ''POST''),
         (''error'', JStr ''Bad Request''),
         (''message'', JArr [JStr ''email must be an email''])])"
proof -
  have raised: "exceptionFactory None
       [ValidationError ''email'' (JStr ''invalid-email'')
            (Some [(''isEmail'', ''email must be an email'')]) None]
     = HttpException 400
         (JObj [(''message'', JStr ''Validation failed''),
                (''errors'', JArr [JObj [(''field'', JStr ''email''),
                                         (''message'', JStr ''email must be an email''),
                                         (''value'', JStr ''invalid-email'')]])])
         ''Validation failed'' ''BadRequestException'' None"
    by (simp add: exceptionFactory_value customFlattenValidationErrors_def)
  have installed: "catch (Some ''production'') ''2024-01-15T10:30:00.000Z''
       \<lparr>ip = Some ''10.0.0.7'', remoteAddress = Some ''10.0.0.7'',
        route = Some (Route ''/api/v1/users''), url = ''/api/v1/users'', http_method = ''POST'',
        body = JObj [(''email'', JStr ''invalid-email'')], query = [], params = [],
        user_agent = None\<rparr>
       (new_BadRequestException (JArr [JStr ''email must be an email'']) None)
     = (400,
        [(''statusCode'', JNum 400), (''timestamp'', JStr ''2024-01-15T10:30:00.000Z''),
         (''path'', JStr ''/api/v1/users''), (''method'', JStr ''POST''),
         (''error'', JStr ''Bad Request''),
         (''message'', JArr [JStr ''email must be an email''])])"
    by (simp add: new_BadRequestException_def createBody_def initMessage_def catch_def
        classify_def js_or_def)
  have answered: "catch (Some ''production'') ''2024-01-15T10:30:00.000Z''
       \<lparr>ip = Some ''10.0.0.7'', remoteAddress = Some ''10.0.0.7'',
        route = Some (Route ''/api/v1/users''), url = ''/api/v1/users'', http_method = ''POST'',
        body = JObj [(''email'', JStr ''invalid-email'')], query = [], params = [],
        user_agent = None\<rparr>
       (exceptionFactory None
         [ValidationError ''email'' (JStr ''invalid-email'')
            (Some [(''isEmail'', ''email must be an email'')]) None])
     = (400,
        [(''statusCode'', JNum 400), (''timestamp'', JStr ''2024-01-15T10:30:00.000Z''),
         (''path'', JStr ''/api/v1/users''), (''method'', JStr ''POST''),
         (''error'', JStr ''BadRequestException''), (''message'', JStr ''Validation failed'')])"
    by (simp add: catch_exceptionFactory)
  show ?thesis
    by (rule conjI [OF raised conjI [OF answered installed]])
qed

section \<open>Properties of the logger\<close>

text \<open>
  What the interceptor does on each path: the start record always, first and once; one
  end record and the same outcome where the callback completes.
\<close>

lemma error_message_defined:
  "e \<noteq> Thrown JNull \<Longrightarrow> e \<noteq> Thrown JUndefined \<Longrightarrow> \<exists>m. error_message e = Some m"
proof (cases e)
  case (Thrown v)
  assume "e \<noteq> Thrown JNull" "e \<noteq> Thrown JUndefined"
  with Thrown show ?thesis by (cases v) simp_all
qed simp_all

lemma is_start_request_record: "is_start (request_record toISOString request started)"
  by (simp add: request_record_def Let_def)

lemma is_end_request_record: "\<not> is_end (request_record toISOString request started)"
  by (simp add: request_record_def Let_def)

lemma intercept_failure:
  "error_message e = Some m \<Longrightarrow>
       intercept stringify toISOString typeError request statusCode started finished (Inl e)
       = ([request_record toISOString request started,
           ErrorLog
             [(''timestamp'', JStr (toISOString finished)),
              (''method'', JStr (http_method request)),
              (''url'', JStr (url request)),
              (''statusCode'', JNum (if statusCode = 0 then 500 else statusCode)),
              (''responseTime'', JNum (finished - started)),
              (''error'', m)]], Inl e)"
  by (simp add: intercept_def Let_def)

lemma intercept_success:
  "stringify data = Some text \<Longrightarrow>
       intercept stringify toISOString typeError request statusCode started finished (Inr data)
       = ([request_record toISOString request started,
           ResponseLog
             [(''timestamp'', JStr (toISOString finished)),
              (''method'', JStr (http_method request)),
              (''url'', JStr (url request)),
              (''statusCode'', JNum statusCode),
              (''responseTime'', JNum (finished - started)),
              (''dataSize'', JNum (int (length text)))]], Inr data)"
  by (simp add: intercept_def Let_def)

text \<open>
  Where the interceptor itself raises: a thrown \<open>null\<close> or \<open>undefined\<close> has no \<open>message\<close>
  to read, and a result without JSON text (a handler that returns nothing) has no length.
  No end record is written then, and what is handed on is the engine's \<open>TypeError\<close>.
\<close>

lemma intercept_raises_itself:
  "intercept stringify toISOString typeError request statusCode started finished (Inl (Thrown JNull))
     = ([request_record toISOString request started], Inl typeError)"
  "intercept stringify toISOString typeError request statusCode started finished (Inl (Thrown JUndefined))
     = ([request_record toISOString request started], Inl typeError)"
  "stringify data = None \<Longrightarrow>
   intercept stringify toISOString typeError request statusCode started finished (Inr data)
     = ([request_record toISOString request started], Inl typeError)"
  by (simp_all add: intercept_def Let_def)

lemma intercept_one_start:
  "filter is_start
     (fst (intercept stringify toISOString typeError request statusCode started finished next))
   = [request_record toISOString request started]"
proof (cases "next")
  case (Inl e)
  show ?thesis
  proof (cases "error_message e")
    case None
    with Inl show ?thesis
      by (simp add: intercept_def Let_def is_start_request_record)
  next
    case (Some m)
    with Inl show ?thesis
      by (simp add: intercept_failure is_start_request_record)
  qed
next
  case (Inr data)
  show ?thesis
  proof (cases "stringify data")
    case None
    with Inr show ?thesis
      by (simp add: intercept_raises_itself is_start_request_record)
  next
    case (Some serial)
    with Inr show ?thesis
      by (simp add: intercept_success is_start_request_record)
  qed
qed

text \<open>
  Claim C9, at failing inputs. A handler that returns nothing: the start record is
  written, no end record follows, and the request fails with the interceptor's own
  \<open>TypeError\<close>. A handler that throws \<open>null\<close>: the same, and the \<open>TypeError\<close> replaces
  the failure. A handler that raises while no status has been set, so that
  \<open>response.statusCode\<close> still is the 200 it starts with: the end record carries 200 and
  not 500.
\<close>

theorem logger_end_record_missing_or_200:
  "intercept (\<lambda>data. if data = JUndefined then None else Some ''{}'')
       (\<lambda>t. if t = 5001 then ''2024-01-01T00:00:05.001Z'' else ''2024-01-01T00:00:05.009Z'')
       (Error ''TypeError'' ''Cannot read properties of undefined'' None)
       \<lparr>ip = Some ''10.0.0.7'', remoteAddress = Some ''10.0.0.7'',
        route = Some (Route ''/health/info''), url = ''/health/info'', http_method = ''GET'',
        body = JUndefined, query = [], params = [], user_agent = Some ''curl/8.5.0''\<rparr> 200 5001 5009 (Inr JUndefined)
     = ([request_record (\<lambda>t. if t = 5001 then ''2024-01-01T00:00:05.001Z'' else ''2024-01-01T00:00:05.009Z'')
           \<lparr>ip = Some ''10.0.0.7'', remoteAddress = Some ''10.0.0.7'',
        route = Some (Route ''/health/info''), url = ''/health/info'', http_method = ''GET'',
        body = JUndefined, query = [], params = [], user_agent = Some ''curl/8.5.0''\<rparr> 5001],
        Inl (Error ''TypeError'' ''Cannot read properties of undefined'' None))
   \<and> intercept (\<lambda>data. if data = JUndefined then None else Some ''{}'')
       (\<lambda>t. if t = 5001 then ''2024-01-01T00:00:05.001Z'' else ''2024-01-01T00:00:05.009Z'')
       (Error ''TypeError'' ''Cannot read properties of undefined'' None)
       \<lparr>ip = Some ''10.0.0.7'', remoteAddress = Some ''10.0.0.7'',
        route = Some (Route ''/health/info''), url = ''/health/info'', http_method = ''GET'',
        body = JUndefined, query = [], params = [], user_agent = Some ''curl/8.5.0''\<rparr> 200 5001 5009 (Inl (Thrown JNull))
     = ([request_record (\<lambda>t. if t = 5001 then ''2024-01-01T00:00:05.001Z'' else ''2024-01-01T00:00:05.009Z'')
           \<lparr>ip = Some ''10.0.0.7'', remoteAddress = Some ''10.0.0.7'',
        route = Some (Route ''/health/info''), url = ''/health/info'', http_method = ''GET'',
        body = JUndefined, query = [], params = [], user_agent = Some ''curl/8.5.0''\<rparr> 5001],
        Inl (Error ''TypeError'' ''Cannot read properties of undefined'' None))
   \<and> intercept (\<lambda>data. if data = JUndefined then None else Some ''{}'')
       (\<lambda>t. if t = 5001 then ''2024-01-01T00:00:05.001Z'' else ''2024-01-01T00:00:05.009Z'')
       (Error ''TypeError'' ''Cannot read properties of undefined'' None)
       \<lparr>ip = Some ''10.0.0.7'', remoteAddress = Some ''10.0.0.7'',
        route = Some (Route ''/health/info''), url = ''/health/info'', http_method = ''GET'',
        body = JUndefined, query = [], params = [], user_agent = Some ''curl/8.5.0''\<rparr> 200 5001 5009 (Inl (Error ''Error'' ''boom'' None))
     = ([request_record (\<lambda>t. if t = 5001 then ''2024-01-01T00:00:05.001Z'' else ''2024-01-01T00:00:05.009Z'')
           \<lparr>ip = Some ''10.0.0.7'', remoteAddress = Some ''10.0.0.7'',
        route = Some (Route ''/health/info''), url = ''/health/info'', http_method = ''GET'',
        body = JUndefined, query = [], params = [], user_agent = Some ''curl/8.5.0''\<rparr> 5001,
         ErrorLog
           [(''timestamp'', JStr ''2024-01-01T00:00:05.009Z''),
            (''method'', JStr ''GET''),
            (''url'', JStr ''/health/info''),
            (''statusCode'', JNum 200),
            (''responseTime'', JNum 8),
            (''error'', JStr ''boom'')]],
        Inl (Error ''Error'' ''boom'' None))"
  by (simp add: intercept_def Let_def)

end
